theory Spec2Isabelle
  imports Main "HOL-Library.Product_Lexorder"
begin

section \<open>The Python runtime, as far as main.py uses it\<close>

text \<open>
  The strings the program keeps and compares (names, phones, commands, arguments) are
  modelled as \<open>string\<close>: lists of characters, each read as one code point in the range
  0..255. The library functions that read a string (\<open>re\<close>, \<open>int\<close>, \<open>strptime\<close>),
  and \<open>Birthday\<close>, which only parses its argument, are modelled on lists of code
  points, with the decimal digits and the white space of Unicode; a \<open>string\<close> reaches
  them through \<open>codes\<close>.
\<close>

subsection \<open>Characters and the str methods used\<close>

definition code :: "char \<Rightarrow> nat" where
  "code c = of_char c"

definition newline :: char where
  "newline = CHR 0x0A"

definition is_digit :: "char \<Rightarrow> bool" where
  "is_digit c = (code CHR ''0'' \<le> code c \<and> code c \<le> code CHR ''9'')"

text \<open>\<open>str.isspace\<close> on code points 0..255: TAB..CR, FS..US, space, NEL and NBSP.\<close>

definition is_space :: "char \<Rightarrow> bool" where
  "is_space c = (let n = code c in
     (9 \<le> n \<and> n \<le> 13) \<or> (28 \<le> n \<and> n \<le> 32) \<or> n = 133 \<or> n = 160)"

text \<open>\<open>str.lower\<close> on code points 0..255: A..Z and the Latin-1 capitals move by 32.\<close>

definition lower_char :: "char \<Rightarrow> char" where
  "lower_char c = (let n = code c in
     if (65 \<le> n \<and> n \<le> 90) \<or> (192 \<le> n \<and> n \<le> 222 \<and> n \<noteq> 215)
     then char_of (n + 32) else c)"

definition lower :: "string \<Rightarrow> string" where
  "lower s = map lower_char s"

definition strip :: "string \<Rightarrow> string" where
  "strip s = rev (dropWhile is_space (rev (dropWhile is_space s)))"

text \<open>
  \<open>s.split()\<close> with no separator: the maximal runs of non-space characters, in order.
  \<open>cur\<close> is the run being read.
\<close>

fun split_from :: "string \<Rightarrow> string \<Rightarrow> string list" where
  "split_from cur [] = (if cur = [] then [] else [cur])"
| "split_from cur (c # cs) =
     (if is_space c then (if cur = [] then split_from [] cs else cur # split_from [] cs)
      else split_from (cur @ [c]) cs)"

definition split :: "string \<Rightarrow> string list" where
  "split s = split_from [] s"

subsection \<open>Code points\<close>

definition codes :: "string \<Rightarrow> nat list" where
  "codes s = map code s"

text \<open>
  The decimal digits (category Nd, \<open>str.isdecimal\<close>, \<open>\d\<close> in a \<open>str\<close> pattern)
  of Unicode 14.0, the version of CPython 3.11: \<open>0\<close>..\<open>9\<close>, and 65 runs of ten code
  points above 127, each in the order of its values 0..9. \<open>decimal_zeros\<close> lists the
  code point of the zero of each run.
\<close>

definition decimal_zeros :: "nat list" where
  "decimal_zeros =
    [1632, 1776, 1984, 2406, 2534, 2662, 2790, 2918, 3046, 3174, 3302, 3430, 3558,
     3664, 3792, 3872, 4160, 4240, 6112, 6160, 6470, 6608, 6784, 6800, 6992, 7088,
     7232, 7248, 42528, 43216, 43264, 43472, 43504, 43600, 44016, 65296, 66720, 68912,
     69734, 69872, 69942, 70096, 70384, 70736, 70864, 71248, 71360, 71472, 71904,
     72016, 72784, 73040, 73120, 92768, 92864, 93008, 120782, 120792, 120802, 120812,
     120822, 123200, 123632, 125264, 130032]"

definition decimal :: "nat \<Rightarrow> nat option" where
  "decimal c =
     (if c < 128 then (if 48 \<le> c \<and> c \<le> 57 then Some (c - 48) else None)
      else (case List.find (\<lambda>z. z \<le> c \<and> c < z + 10) decimal_zeros of
              None \<Rightarrow> None
            | Some z \<Rightarrow> Some (c - z)))"

definition decimal_val :: "nat \<Rightarrow> nat" where
  "decimal_val c = (case decimal c of None \<Rightarrow> 0 | Some v \<Rightarrow> v)"

definition u_digit :: "nat \<Rightarrow> bool" where
  "u_digit c = (decimal c \<noteq> None)"

text \<open>\<open>str.isspace\<close> on every code point.\<close>

definition u_space :: "nat \<Rightarrow> bool" where
  "u_space c =
     ((9 \<le> c \<and> c \<le> 13) \<or> (28 \<le> c \<and> c \<le> 32) \<or> c = 133 \<or> c = 160 \<or> c = 5760 \<or>
      (8192 \<le> c \<and> c \<le> 8202) \<or> c = 8232 \<or> c = 8233 \<or> c = 8239 \<or> c = 8287 \<or> c = 12288)"

subsection \<open>Dates and times\<close>

record datetime =
  year :: nat
  month :: nat
  day :: nat
  hour :: nat
  minute :: nat
  second :: nat
  microsecond :: nat

definition is_leap :: "nat \<Rightarrow> bool" where
  "is_leap y = (y mod 4 = 0 \<and> (y mod 100 \<noteq> 0 \<or> y mod 400 = 0))"

definition days_in_month :: "nat \<Rightarrow> nat \<Rightarrow> nat" where
  "days_in_month y m =
     (if m = 2 then (if is_leap y then 29 else 28)
      else if m = 4 \<or> m = 6 \<or> m = 9 \<or> m = 11 then 30 else 31)"

definition valid_date :: "nat \<Rightarrow> nat \<Rightarrow> nat \<Rightarrow> bool" where
  "valid_date y m d =
     (1 \<le> y \<and> y \<le> 9999 \<and> 1 \<le> m \<and> m \<le> 12 \<and> 1 \<le> d \<and> d \<le> days_in_month y m)"

definition valid_datetime :: "datetime \<Rightarrow> bool" where
  "valid_datetime t =
     (valid_date (year t) (month t) (day t) \<and> hour t < 24 \<and> minute t < 60 \<and>
      second t < 60 \<and> microsecond t < 1000000)"


subsection \<open>Objects, messages and exceptions\<close>

text \<open>
  A \<open>Record\<close> object (main.py, lines 44-48). A \<open>Name\<close>, a \<open>Phone\<close> and a
  \<open>Birthday\<close> are \<open>Field\<close> objects with the one attribute \<open>value\<close>; the model
  keeps that attribute: a string for a name and a phone, a \<open>datetime\<close> for a birthday.
\<close>

record Record =
  name :: string
  phones :: "string list"
  birthday :: "datetime option"

text \<open>
  The texts the program returns and prints. The literals of main.py are Ukrainian, so
  every literal is a constructor, with the line it stands on; an f-string keeps the
  values it formats, and a \<open>join\<close> the items it joins. \<open>Text\<close> is a text the library
  supplies.
\<close>

datatype message =
    NameEmpty                        \<comment> \<open>line 16\<close>
  | PhoneTenDigits                   \<comment> \<open>line 22\<close>
  | DateFormat                       \<comment> \<open>line 33\<close>
  | NeedNameBirthday                 \<comment> \<open>line 115\<close>
  | NotFound string                  \<comment> \<open>lines 119, 130, 163, 174\<close>
  | BirthdayAdded string             \<comment> \<open>line 121\<close>
  | NeedName                         \<comment> \<open>lines 126, 170\<close>
  | NoBirthdayInfo string            \<comment> \<open>line 132\<close>
  | BirthdayOf string datetime       \<comment> \<open>line 133\<close>
  | NoBirthdays                      \<comment> \<open>line 139\<close>
  | JoinLines "string list"          \<comment> \<open>line 140\<close>
  | NeedNamePhone                    \<comment> \<open>line 145\<close>
  | ContactUpdated                   \<comment> \<open>line 148\<close>
  | ContactAdded                     \<comment> \<open>line 152\<close>
  | NeedNameOldNew                   \<comment> \<open>line 159\<close>
  | PhoneChanged string              \<comment> \<open>line 165\<close>
  | JoinComma "string list"          \<comment> \<open>line 175\<close>
  | BookEmpty                        \<comment> \<open>line 180\<close>
  | RecordLines "Record list"        \<comment> \<open>line 181, each line by \<open>Record.__str__\<close>\<close>
  | Welcome                          \<comment> \<open>line 191\<close>
  | Goodbye                          \<comment> \<open>line 198\<close>
  | HowCanIHelp                      \<comment> \<open>line 202\<close>
  | InvalidCommand                   \<comment> \<open>line 226\<close>
  | Text string

datatype exn =
    ValueError message
  | IndexError message
  | OverflowError message
  | FileNotFoundError message
  | OSError message
  | PickleError message
  | EOFError message

text \<open>\<open>str(e)\<close>\<close>

fun str_exn :: "exn \<Rightarrow> message" where
  "str_exn (ValueError m) = m"
| "str_exn (IndexError m) = m"
| "str_exn (OverflowError m) = m"
| "str_exn (FileNotFoundError m) = m"
| "str_exn (OSError m) = m"
| "str_exn (PickleError m) = m"
| "str_exn (EOFError m) = m"

fun is_FileNotFoundError :: "exn \<Rightarrow> bool" where
  "is_FileNotFoundError (FileNotFoundError m) = True"
| "is_FileNotFoundError e = False"

subsection \<open>The datetime constructor, replace, addition of days, comparison\<close>

text \<open>\<open>datetime(y, m, d, ...)\<close> checks the date fields and raises ValueError.\<close>

definition check_date_fields :: "nat \<Rightarrow> nat \<Rightarrow> nat \<Rightarrow> exn option" where
  "check_date_fields y m d =
     (if \<not> (1 \<le> y \<and> y \<le> 9999) then Some (ValueError (Text ''year is out of range''))
      else if \<not> (1 \<le> m \<and> m \<le> 12) then Some (ValueError (Text ''month must be in 1..12''))
      else if \<not> (1 \<le> d \<and> d \<le> days_in_month y m)
        then Some (ValueError (Text ''day is out of range for month''))
      else None)"

definition date_at_midnight :: "nat \<Rightarrow> nat \<Rightarrow> nat \<Rightarrow> exn + datetime" where
  "date_at_midnight y m d =
     (case check_date_fields y m d of
        Some e \<Rightarrow> Inl e
      | None \<Rightarrow> Inr \<lparr>year = y, month = m, day = d,
                       hour = 0, minute = 0, second = 0, microsecond = 0\<rparr>)"

text \<open>\<open>t.replace(year=y)\<close>: a new datetime, checked like a constructed one.\<close>

definition replace_year :: "datetime \<Rightarrow> nat \<Rightarrow> exn + datetime" where
  "replace_year t y =
     (case check_date_fields y (month t) (day t) of
        Some e \<Rightarrow> Inl e
      | None \<Rightarrow> Inr (t\<lparr>year := y\<rparr>))"

definition next_day :: "nat \<times> nat \<times> nat \<Rightarrow> nat \<times> nat \<times> nat" where
  "next_day ymd =
     (case ymd of (y, m, d) \<Rightarrow>
        if d < days_in_month y m then (y, m, d + 1)
        else if m < 12 then (y, m + 1, 1)
        else (y + 1, 1, 1))"

text \<open>
  \<open>t + timedelta(days=n)\<close> for \<open>n \<ge> 0\<close>: the date \<open>n\<close> days later at the same
  time of day; OverflowError past the year 9999.
\<close>

definition plus_days :: "datetime \<Rightarrow> nat \<Rightarrow> exn + datetime" where
  "plus_days t n =
     (case (next_day ^^ n) (year t, month t, day t) of (y, m, d) \<Rightarrow>
        if y > 9999 then Inl (OverflowError (Text ''date value out of range''))
        else Inr (t\<lparr>year := y, month := m, day := d\<rparr>))"

text \<open>Datetimes compare field by field, the year first.\<close>

definition dt_key :: "datetime \<Rightarrow> nat \<times> nat \<times> nat \<times> nat \<times> nat \<times> nat \<times> nat" where
  "dt_key t = (year t, month t, day t, hour t, minute t, second t, microsecond t)"

definition dt_le :: "datetime \<Rightarrow> datetime \<Rightarrow> bool" where
  "dt_le a b = (dt_key a \<le> dt_key b)"

definition dt_less :: "datetime \<Rightarrow> datetime \<Rightarrow> bool" where
  "dt_less a b = (dt_key a < dt_key b)"

subsection \<open>Regular expressions\<close>

text \<open>
  The patterns of the \<open>re\<close> module that the program and \<open>strptime\<close> use, matched by
  backtracking as the module does: \<open>rmatch r st\<close> lists, in the order the engine tries
  them, the states in which a match of \<open>r\<close> from state \<open>st\<close> can end. A state is the
  position reached, the input from there on, and the groups closed so far. The input is
  a list of code points.
\<close>

datatype regex =
    Eps
  | Lit nat                   \<comment> \<open>one given character\<close>
  | Range nat nat             \<comment> \<open>\<open>[a-b]\<close>\<close>
  | Digit                     \<comment> \<open>\<open>\d\<close>\<close>
  | Cat regex regex
  | Alt regex regex           \<comment> \<open>\<open>r|s\<close>: \<open>r\<close> is tried first\<close>
  | Group string regex        \<comment> \<open>\<open>(?P<name>r)\<close>\<close>
  | Bol                       \<comment> \<open>\<open>^\<close>\<close>
  | Eol                       \<comment> \<open>\<open>$\<close>\<close>

type_synonym mstate = "nat \<times> nat list \<times> (string \<times> nat list) list"

fun rmatch :: "regex \<Rightarrow> mstate \<Rightarrow> mstate list" where
  "rmatch Eps st = [st]"
| "rmatch (Lit c) (i, s, g) =
     (case s of [] \<Rightarrow> [] | x # xs \<Rightarrow> if x = c then [(Suc i, xs, g)] else [])"
| "rmatch (Range a b) (i, s, g) =
     (case s of [] \<Rightarrow> []
      | x # xs \<Rightarrow> if a \<le> x \<and> x \<le> b then [(Suc i, xs, g)] else [])"
| "rmatch Digit (i, s, g) =
     (case s of [] \<Rightarrow> [] | x # xs \<Rightarrow> if u_digit x then [(Suc i, xs, g)] else [])"
| "rmatch (Cat r1 r2) st = concat (map (rmatch r2) (rmatch r1 st))"
| "rmatch (Alt r1 r2) st = rmatch r1 st @ rmatch r2 st"
| "rmatch (Group n r) (i, s, g) =
     map (\<lambda>(j, t, h). (j, t, h @ [(n, take (j - i) s)])) (rmatch r (i, s, g))"
| "rmatch Bol (i, s, g) = (if i = 0 then [(i, s, g)] else [])"
| "rmatch Eol (i, s, g) = (if s = [] \<or> s = [code newline] then [(i, s, g)] else [])"

text \<open>\<open>r{n}\<close>\<close>

fun times :: "nat \<Rightarrow> regex \<Rightarrow> regex" where
  "times 0 r = Eps"
| "times (Suc n) r = Cat r (times n r)"

text \<open>\<open>pattern.match(s)\<close>: the first match from position 0, or None.\<close>

definition re_match :: "regex \<Rightarrow> nat list \<Rightarrow> mstate option" where
  "re_match r s = (case rmatch r (0, s, []) of [] \<Rightarrow> None | m # _ \<Rightarrow> Some m)"


subsection \<open>int and strptime\<close>

text \<open>
  \<open>int(s)\<close> on the strings a group of the \<open>strptime\<close> pattern can hold: decimal
  digits of any script, with white space around them stripped. (Signs and underscores,
  which \<open>int\<close> also reads, never occur in a group.) The white space \<open>int\<close> strips is
  TAB..CR and the space, and every \<open>str.isspace\<close> character from 127 on.
\<close>

definition int_space :: "nat \<Rightarrow> bool" where
  "int_space c = ((9 \<le> c \<and> c \<le> 13) \<or> c = 32 \<or> (127 \<le> c \<and> u_space c))"

definition int_strip :: "nat list \<Rightarrow> nat list" where
  "int_strip s = rev (dropWhile int_space (rev (dropWhile int_space s)))"

definition py_int :: "nat list \<Rightarrow> exn + nat" where
  "py_int s =
     (let t = int_strip s in
      if t \<noteq> [] \<and> list_all u_digit t
      then Inr (foldl (\<lambda>n c. 10 * n + decimal_val c) 0 t)
      else Inl (ValueError (Text ''invalid literal for int()'')))"

text \<open>
  \<open>datetime.strptime(s, "%d.%m.%Y")\<close>, after CPython's \<open>_strptime.py\<close>: the format
  becomes the pattern
  \<open>(?P<d>3[0-1]|[1-2]\d|0[1-9]|[1-9]| [1-9])\.(?P<m>1[0-2]|0[1-9]|[1-9])\.(?P<Y>\d\d\d\d)\<close>,
  which is matched at the start of \<open>s\<close>; a match that does not end where \<open>s\<close> ends
  is refused (unconverted data remains); the groups are read with \<open>int\<close> and the date
  is built at midnight. (The pattern is compiled with IGNORECASE, which changes nothing
  for digits, the dot and the space.) In the pattern \<open>\d\<close> is any decimal digit, and
  \<open>[0-1]\<close>, \<open>[1-2]\<close>, \<open>[1-9]\<close>, \<open>[0-2]\<close> are ranges of ASCII digits.
\<close>

definition day_re :: regex where
  "day_re =
     Alt (Cat (Lit (code CHR ''3'')) (Range (code CHR ''0'') (code CHR ''1'')))
    (Alt (Cat (Range (code CHR ''1'') (code CHR ''2'')) Digit)
    (Alt (Cat (Lit (code CHR ''0'')) (Range (code CHR ''1'') (code CHR ''9'')))
    (Alt (Range (code CHR ''1'') (code CHR ''9''))
         (Cat (Lit (code CHR '' '')) (Range (code CHR ''1'') (code CHR ''9''))))))"

definition month_re :: regex where
  "month_re =
     Alt (Cat (Lit (code CHR ''1'')) (Range (code CHR ''0'') (code CHR ''2'')))
    (Alt (Cat (Lit (code CHR ''0'')) (Range (code CHR ''1'') (code CHR ''9'')))
         (Range (code CHR ''1'') (code CHR ''9'')))"

definition year_re :: regex where
  "year_re = Cat Digit (Cat Digit (Cat Digit Digit))"

definition strptime_regex :: regex where
  "strptime_regex =
     Cat (Group ''d'' day_re) (Cat (Lit (code CHR ''.''))
    (Cat (Group ''m'' month_re) (Cat (Lit (code CHR ''.''))
         (Group ''Y'' year_re))))"

definition strptime :: "nat list \<Rightarrow> exn + datetime" where
  "strptime s =
     (case re_match strptime_regex s of
        None \<Rightarrow> Inl (ValueError (Text ''time data does not match format''))
      | Some (e, rest, found) \<Rightarrow>
          if length s \<noteq> e then Inl (ValueError (Text ''unconverted data remains''))
          else
            (case (map_of found ''Y'', map_of found ''m'', map_of found ''d'') of
               (Some ys, Some ms, Some ds) \<Rightarrow>
                 (case py_int ys of Inl x \<Rightarrow> Inl x | Inr y \<Rightarrow>
                  case py_int ms of Inl x \<Rightarrow> Inl x | Inr m \<Rightarrow>
                  case py_int ds of Inl x \<Rightarrow> Inl x | Inr d \<Rightarrow>
                    date_at_midnight y m d)
             | _ \<Rightarrow> Inl (IndexError (Text ''no such group''))))"

subsection \<open>Dictionaries, files and pickle\<close>

text \<open>
  A \<open>dict\<close> keeps its keys in insertion order: an association list with one entry per
  key. \<open>d[k] = v\<close> replaces the entry of \<open>k\<close> where it stands, or appends one.
\<close>

fun dict_set :: "'k \<Rightarrow> 'v \<Rightarrow> ('k \<times> 'v) list \<Rightarrow> ('k \<times> 'v) list" where
  "dict_set k v [] = [(k, v)]"
| "dict_set k v (p # ps) = (if fst p = k then (k, v) # ps else p # dict_set k v ps)"

definition dict_get :: "('k \<times> 'v) list \<Rightarrow> 'k \<Rightarrow> 'v option" where
  "dict_get d k = map_of d k"

definition dict_del :: "'k \<Rightarrow> ('k \<times> 'v) list \<Rightarrow> ('k \<times> 'v) list" where
  "dict_del k d = filter (\<lambda>p. fst p \<noteq> k) d"

definition dict_values :: "('k \<times> 'v) list \<Rightarrow> 'v list" where
  "dict_values d = map snd d"

text \<open>
  What \<open>open\<close> finds at a path: nothing, a file with its content, a file that can be
  read but not written, or a path whose \<open>open\<close> raises the given exception.
  The content type \<open>'f\<close> is what \<open>pickle\<close> writes.
\<close>

datatype 'f node = Absent | Regular 'f | ReadOnly 'f | Unopenable exn

type_synonym 'f fs = "string \<Rightarrow> 'f node"


text \<open>
  The \<open>pickle\<close> module is not part of the repository: \<open>dump\<close> is what
  \<open>pickle.dump\<close> writes for an address book and \<open>load\<close> what \<open>pickle.load\<close> makes
  of a file's content (an exception, or the object read).
\<close>

record 'f pickle =
  dump :: "(string \<times> Record) list \<Rightarrow> 'f"
  load :: "'f \<Rightarrow> exn + (string \<times> Record) list"

section \<open>main.py\<close>

subsection \<open>The fields (lines 6-42)\<close>

definition Name :: "string \<Rightarrow> exn + string" where
  "Name v = (if v = [] then Inl (ValueError NameEmpty) else Inr v)"

definition phone_pattern :: regex where
  "phone_pattern = Cat Bol (Cat (times 10 Digit) Eol)"

definition validate_phone :: "string \<Rightarrow> bool" where
  "validate_phone phone = (re_match phone_pattern (codes phone) \<noteq> None)"

definition Phone :: "string \<Rightarrow> exn + string" where
  "Phone v = (if \<not> validate_phone v then Inl (ValueError PhoneTenDigits) else Inr v)"

text \<open>
  \<open>validate_date\<close> catches ValueError only. \<open>validate_date\<close> and \<open>Birthday\<close> take
  the code points of their argument.
\<close>

definition validate_date :: "nat list \<Rightarrow> exn + bool" where
  "validate_date date_text =
     (case strptime date_text of
        Inr t \<Rightarrow> Inr True
      | Inl (ValueError m) \<Rightarrow> Inr False
      | Inl e \<Rightarrow> Inl e)"

definition Birthday :: "nat list \<Rightarrow> exn + datetime" where
  "Birthday v =
     (case validate_date v of
        Inl e \<Rightarrow> Inl e
      | Inr ok \<Rightarrow> if \<not> ok then Inl (ValueError DateFormat) else strptime v)"

subsection \<open>Record (lines 44-69)\<close>

text \<open>
  A method that changes the record returns the exception it raised, if any, and the
  record as the call leaves it.
\<close>

definition new_Record :: "string \<Rightarrow> exn + Record" where
  "new_Record n =
     (case Name n of
        Inl e \<Rightarrow> Inl e
      | Inr v \<Rightarrow> Inr \<lparr>name = v, phones = [], birthday = None\<rparr>)"

definition add_phone :: "string \<Rightarrow> Record \<Rightarrow> exn option \<times> Record" where
  "add_phone phone r =
     (case Phone phone of
        Inl e \<Rightarrow> (Some e, r)
      | Inr p \<Rightarrow> (None, r\<lparr>phones := phones r @ [p]\<rparr>))"

definition remove_phone :: "string \<Rightarrow> Record \<Rightarrow> Record" where
  "remove_phone phone r = r\<lparr>phones := filter (\<lambda>p. p \<noteq> phone) (phones r)\<rparr>"

definition edit_phone :: "string \<Rightarrow> string \<Rightarrow> Record \<Rightarrow> exn option \<times> Record" where
  "edit_phone old_phone new_phone r = add_phone new_phone (remove_phone old_phone r)"

definition find_phone :: "string \<Rightarrow> Record \<Rightarrow> string option" where
  "find_phone phone r = List.find (\<lambda>p. p = phone) (phones r)"

definition Record_add_birthday :: "string \<Rightarrow> Record \<Rightarrow> exn option \<times> Record" where
  "Record_add_birthday b r =
     (case Birthday (codes b) of
        Inl e \<Rightarrow> (Some e, r)
      | Inr d \<Rightarrow> (None, r\<lparr>birthday := Some d\<rparr>))"

subsection \<open>AddressBook (lines 71-91)\<close>

type_synonym AddressBook = "(string \<times> Record) list"

definition add_record :: "Record \<Rightarrow> AddressBook \<Rightarrow> AddressBook" where
  "add_record r book = dict_set (name r) r book"

definition find_record :: "AddressBook \<Rightarrow> string \<Rightarrow> Record option" where
  "find_record book n = dict_get book n"

definition delete :: "string \<Rightarrow> AddressBook \<Rightarrow> AddressBook" where
  "delete n book = (if n \<in> fst ` set book then dict_del n book else book)"

text \<open>
  The loop of \<open>get_upcoming_birthdays\<close> over \<open>self.data.values()\<close>; \<open>acc\<close> is
  \<open>birthdays_next_week\<close>. An exception of \<open>replace\<close> ends the loop and the call.
\<close>

fun upcoming_loop :: "datetime \<Rightarrow> datetime \<Rightarrow> Record list \<Rightarrow> string list \<Rightarrow> exn + string list" where
  "upcoming_loop today upcoming [] acc = Inr acc"
| "upcoming_loop today upcoming (r # rs) acc =
     (case birthday r of
        None \<Rightarrow> upcoming_loop today upcoming rs acc
      | Some b \<Rightarrow>
          (case replace_year b (year today) of
             Inl e \<Rightarrow> Inl e
           | Inr birthday_this_year \<Rightarrow>
               if dt_le today birthday_this_year \<and> dt_less birthday_this_year upcoming
               then upcoming_loop today upcoming rs (acc @ [name r])
               else upcoming_loop today upcoming rs acc))"

text \<open>\<open>today\<close> is what \<open>datetime.today()\<close> returns when the method runs.\<close>

definition get_upcoming_birthdays :: "datetime \<Rightarrow> nat \<Rightarrow> AddressBook \<Rightarrow> exn + string list" where
  "get_upcoming_birthdays today days book =
     (case plus_days today days of
        Inl e \<Rightarrow> Inl e
      | Inr upcoming \<Rightarrow> upcoming_loop today upcoming (dict_values book) [])"

subsection \<open>Persistence (lines 93-102)\<close>

definition save_data :: "'f pickle \<Rightarrow> AddressBook \<Rightarrow> string \<Rightarrow> 'f fs \<Rightarrow> exn + 'f fs" where
  "save_data P book filename files =
     (case files filename of
        Unopenable e \<Rightarrow> Inl e
      | ReadOnly c \<Rightarrow> Inl (OSError (Text ''Permission denied''))
      | _ \<Rightarrow> Inr (files(filename := Regular (dump P book))))"

text \<open>The body of the \<open>try\<close>: \<open>open\<close>, then \<open>pickle.load\<close>.\<close>

definition open_and_load :: "'f pickle \<Rightarrow> string \<Rightarrow> 'f fs \<Rightarrow> exn + AddressBook" where
  "open_and_load P filename files =
     (case files filename of
        Absent \<Rightarrow> Inl (FileNotFoundError (Text ''No such file or directory''))
      | Unopenable e \<Rightarrow> Inl e
      | Regular c \<Rightarrow> load P c
      | ReadOnly c \<Rightarrow> load P c)"

definition load_data :: "'f pickle \<Rightarrow> string \<Rightarrow> 'f fs \<Rightarrow> exn + AddressBook" where
  "load_data P filename files =
     (case open_and_load P filename files of
        Inr book \<Rightarrow> Inr book
      | Inl e \<Rightarrow> if is_FileNotFoundError e then Inr [] else Inl e)"


subsection \<open>The handlers (lines 104-181)\<close>

text \<open>
  A handler's body returns what it returned or raised, and the book as it leaves it.
  A record that \<open>book.find\<close> returned is the object the book holds: what a method does
  to it shows in the book, under the key it was found at, also when the method raises.
\<close>

type_synonym reply = "(exn + message) \<times> AddressBook"

definition mutate :: "string \<Rightarrow> exn option \<times> Record \<Rightarrow> message \<Rightarrow> AddressBook \<Rightarrow> reply" where
  "mutate key call msg book =
     (case call of
        (Some e, r) \<Rightarrow> (Inl e, dict_set key r book)
      | (None, r) \<Rightarrow> (Inr msg, dict_set key r book))"

text \<open>The decorator: \<open>except Exception as e: return str(e)\<close>.\<close>

definition input_error :: "reply \<Rightarrow> message \<times> AddressBook" where
  "input_error res =
     (case res of
        (Inl e, book) \<Rightarrow> (str_exn e, book)
      | (Inr m, book) \<Rightarrow> (m, book))"

definition add_birthday_body :: "string list \<Rightarrow> AddressBook \<Rightarrow> reply" where
  "add_birthday_body args book =
     (if length args < 2 then (Inr NeedNameBirthday, book)
      else let n = args ! 0; b = args ! 1 in
        case find_record book n of
          None \<Rightarrow> (Inr (NotFound n), book)
        | Some r \<Rightarrow> mutate n (Record_add_birthday b r) (BirthdayAdded n) book)"

definition add_birthday :: "string list \<Rightarrow> AddressBook \<Rightarrow> message \<times> AddressBook" where
  "add_birthday args book = input_error (add_birthday_body args book)"

definition show_birthday_body :: "string list \<Rightarrow> AddressBook \<Rightarrow> reply" where
  "show_birthday_body args book =
     (if length args < 1 then (Inr NeedName, book)
      else let n = args ! 0 in
        case find_record book n of
          None \<Rightarrow> (Inr (NotFound n), book)
        | Some r \<Rightarrow>
            (case birthday r of
               None \<Rightarrow> (Inr (NoBirthdayInfo n), book)
             | Some d \<Rightarrow> (Inr (BirthdayOf n d), book)))"

definition show_birthday :: "string list \<Rightarrow> AddressBook \<Rightarrow> message \<times> AddressBook" where
  "show_birthday args book = input_error (show_birthday_body args book)"

definition birthdays_body :: "datetime \<Rightarrow> string list \<Rightarrow> AddressBook \<Rightarrow> reply" where
  "birthdays_body today args book =
     (case get_upcoming_birthdays today 7 book of
        Inl e \<Rightarrow> (Inl e, book)
      | Inr birthdays_list \<Rightarrow>
          if birthdays_list = [] then (Inr NoBirthdays, book)
          else (Inr (JoinLines birthdays_list), book))"

definition birthdays :: "datetime \<Rightarrow> string list \<Rightarrow> AddressBook \<Rightarrow> message \<times> AddressBook" where
  "birthdays today args book = input_error (birthdays_body today args book)"

definition add_contact_body :: "string list \<Rightarrow> AddressBook \<Rightarrow> reply" where
  "add_contact_body args book =
     (if length args < 2 then (Inr NeedNamePhone, book)
      else let n = args ! 0; phone = args ! 1 in
        case find_record book n of
          None \<Rightarrow>
            (case new_Record n of
               Inl e \<Rightarrow> (Inl e, book)
             | Inr r \<Rightarrow> mutate (name r) (add_phone phone r) ContactAdded (add_record r book))
        | Some r \<Rightarrow> mutate n (add_phone phone r) ContactUpdated book)"

definition add_contact :: "string list \<Rightarrow> AddressBook \<Rightarrow> message \<times> AddressBook" where
  "add_contact args book = input_error (add_contact_body args book)"

definition change_contact_body :: "string list \<Rightarrow> AddressBook \<Rightarrow> reply" where
  "change_contact_body args book =
     (if length args < 3 then (Inr NeedNameOldNew, book)
      else let n = args ! 0; old_phone = args ! 1; new_phone = args ! 2 in
        case find_record book n of
          None \<Rightarrow> (Inr (NotFound n), book)
        | Some r \<Rightarrow> mutate n (edit_phone old_phone new_phone r) (PhoneChanged n) book)"

definition change_contact :: "string list \<Rightarrow> AddressBook \<Rightarrow> message \<times> AddressBook" where
  "change_contact args book = input_error (change_contact_body args book)"

definition show_phone_body :: "string list \<Rightarrow> AddressBook \<Rightarrow> reply" where
  "show_phone_body args book =
     (if length args < 1 then (Inr NeedName, book)
      else let n = args ! 0 in
        case find_record book n of
          None \<Rightarrow> (Inr (NotFound n), book)
        | Some r \<Rightarrow> (Inr (JoinComma (phones r)), book))"

definition show_phone :: "string list \<Rightarrow> AddressBook \<Rightarrow> message \<times> AddressBook" where
  "show_phone args book = input_error (show_phone_body args book)"

definition show_all_contacts_body :: "AddressBook \<Rightarrow> reply" where
  "show_all_contacts_body book =
     (if book = [] then (Inr BookEmpty, book)
      else (Inr (RecordLines (dict_values book)), book))"

definition show_all_contacts :: "AddressBook \<Rightarrow> message \<times> AddressBook" where
  "show_all_contacts book = input_error (show_all_contacts_body book)"

subsection \<open>The command loop (lines 183-226)\<close>

text \<open>\<open>parts[0]\<close> raises IndexError when \<open>parts\<close> is empty.\<close>

definition parse_input :: "string \<Rightarrow> exn + string \<times> string list" where
  "parse_input user_input =
     (let parts = split (strip user_input) in
      case parts of
        [] \<Rightarrow> Inl (IndexError (Text ''list index out of range''))
      | command # args \<Rightarrow> Inr (lower command, args))"

text \<open>
  One pass of the \<open>while\<close> loop on the line that \<open>input\<close> returned: an exception that
  leaves the loop, or the text printed with either the book to go on with or, after
  \<open>break\<close>, the files as \<open>save_data\<close> left them.
\<close>

datatype 'f turn = Continue message AddressBook | Break message "'f fs"

definition say :: "message \<times> AddressBook \<Rightarrow> exn + 'f turn" where
  "say res = (case res of (m, book) \<Rightarrow> Inr (Continue m book))"

definition loop_body ::
  "'f pickle \<Rightarrow> datetime \<Rightarrow> string \<Rightarrow> AddressBook \<Rightarrow> 'f fs \<Rightarrow> exn + 'f turn" where
  "loop_body P today user_input book files =
     (case parse_input user_input of
        Inl e \<Rightarrow> Inl e
      | Inr (command, args) \<Rightarrow>
          if command \<in> set [''close'', ''exit''] then
            (case save_data P book ''addressbook.pkl'' files of
               Inl e \<Rightarrow> Inl e
             | Inr files' \<Rightarrow> Inr (Break Goodbye files'))
          else if command = ''hello'' then say (HowCanIHelp, book)
          else if command = ''add'' then say (add_contact args book)
          else if command = ''change'' then say (change_contact args book)
          else if command = ''phone'' then say (show_phone args book)
          else if command = ''all'' then say (show_all_contacts book)
          else if command = ''add-birthday'' then say (add_birthday args book)
          else if command = ''show-birthday'' then say (show_birthday args book)
          else if command = ''birthdays'' then say (birthdays today args book)
          else say (InvalidCommand, book))"

text \<open>
  The loop over the lines typed, each with the clock's reading when it is handled;
  \<open>out\<close> is what has been printed. It ends with an exception, or after \<open>break\<close>;
  when the lines run out, \<open>input\<close> raises EOFError.
\<close>

fun main_loop ::
  "'f pickle \<Rightarrow> (datetime \<times> string) list \<Rightarrow> AddressBook \<Rightarrow> 'f fs \<Rightarrow> message list
     \<Rightarrow> (exn option \<times> message list \<times> 'f fs)" where
  "main_loop P [] book files out = (Some (EOFError (Text ''EOF when reading a line'')), out, files)"
| "main_loop P ((today, user_input) # later) book files out =
     (case loop_body P today user_input book files of
        Inl e \<Rightarrow> (Some e, out, files)
      | Inr (Continue m book') \<Rightarrow> main_loop P later book' files (out @ [m])
      | Inr (Break m files') \<Rightarrow> (None, out @ [m], files'))"

definition main :: "'f pickle \<Rightarrow> (datetime \<times> string) list \<Rightarrow> 'f fs \<Rightarrow> (exn option \<times> message list \<times> 'f fs)" where
  "main P typed files =
     (case load_data P ''addressbook.pkl'' files of
        Inl e \<Rightarrow> (Some e, [], files)
      | Inr book \<Rightarrow> main_loop P typed book files [Welcome])"


section \<open>The specification's notions\<close>

text \<open>A string of exactly 10 decimal digits (section 3 of the specification).\<close>

definition ten_digits :: "string \<Rightarrow> bool" where
  "ten_digits s = (length s = 10 \<and> list_all is_digit s)"

text \<open>
  The birthday re-anchored to the current year: month and day kept, the year replaced
  (section 4.3), and the window \<open>today <= anchored < today + days\<close>.
\<close>

definition anchored :: "datetime \<Rightarrow> datetime \<Rightarrow> datetime" where
  "anchored today b = b\<lparr>year := year today\<rparr>"

definition in_window :: "datetime \<Rightarrow> datetime \<Rightarrow> Record \<Rightarrow> bool" where
  "in_window today upcoming r =
     (case birthday r of
        None \<Rightarrow> False
      | Some b \<Rightarrow> dt_le today (anchored today b) \<and> dt_less (anchored today b) upcoming)"

text \<open>The record has no birthday, or its month and day exist in the current year.\<close>

definition anchors :: "datetime \<Rightarrow> Record \<Rightarrow> bool" where
  "anchors today r =
     (case birthday r of
        None \<Rightarrow> True
      | Some b \<Rightarrow> check_date_fields (year today) (month b) (day b) = None)"

subsection \<open>Sample data\<close>

definition at_midnight :: "nat \<Rightarrow> nat \<Rightarrow> nat \<Rightarrow> datetime" where
  "at_midnight y m d =
     \<lparr>year = y, month = m, day = d, hour = 0, minute = 0, second = 0, microsecond = 0\<rparr>"

definition bob :: Record where
  "bob = \<lparr>name = ''Bob'', phones = [''0501234567''], birthday = Some (at_midnight 2000 2 29)\<rparr>"

definition noon_25_Feb_2023 :: datetime where
  "noon_25_Feb_2023 =
     \<lparr>year = 2023, month = 2, day = 25, hour = 12, minute = 0, second = 0, microsecond = 0\<rparr>"




subsection \<open>The invariant of section 3\<close>

text \<open>
  Every phone of a record satisfies \<open>Q\<close>, and its birthday, if any, is a calendar date;
  every key of the book is the name of the record under it. The specification's \<open>Q\<close>
  is the 10-digit rule.
\<close>

definition record_inv_with :: "(string \<Rightarrow> bool) \<Rightarrow> Record \<Rightarrow> bool" where
  "record_inv_with Q r =
     (list_all Q (phones r) \<and> (case birthday r of None \<Rightarrow> True | Some d \<Rightarrow> valid_datetime d))"

definition book_inv_with :: "(string \<Rightarrow> bool) \<Rightarrow> AddressBook \<Rightarrow> bool" where
  "book_inv_with Q book = list_all (\<lambda>(k, r). name r = k \<and> record_inv_with Q r) book"

definition record_inv :: "Record \<Rightarrow> bool" where
  "record_inv r = record_inv_with ten_digits r"

definition book_inv :: "AddressBook \<Rightarrow> bool" where
  "book_inv book = book_inv_with ten_digits book"

text \<open>Every argument that \<open>validate_phone\<close> accepts satisfies \<open>Q\<close>.\<close>

definition accepted_satisfy :: "(string \<Rightarrow> bool) \<Rightarrow> string list \<Rightarrow> bool" where
  "accepted_satisfy Q args = list_all (\<lambda>a. validate_phone a \<longrightarrow> Q a) args"

subsection \<open>Dates written as text\<close>

text \<open>
  The number that the decimal digits of a string write, and the specification's
  \<open>DD.MM.YYYY\<close>: two digits, a dot, two digits, a dot and four digits, the digits
  being \<open>0\<close>..\<open>9\<close>. Legal calendar values are those of \<open>valid_date\<close>: a year from 1 to
  9999, a month from 1 to 12, a day from 1 to the length of the month.
\<close>

definition number :: "nat list \<Rightarrow> nat" where
  "number t = foldl (\<lambda>n c. 10 * n + decimal_val c) 0 (filter u_digit t)"





text \<open>
  What \<open>strptime\<close> takes for a day, a month and a year. A day is \<open>1\<close>..\<open>9\<close>,
  \<open>01\<close>..\<open>09\<close>, \<open>30\<close>, \<open>31\<close>, a space and \<open>1\<close>..\<open>9\<close>, or \<open>1\<close> or \<open>2\<close>
  followed by a decimal digit of any script. A month is \<open>1\<close>..\<open>9\<close>, \<open>01\<close>..\<open>09\<close>,
  \<open>10\<close>, \<open>11\<close> or \<open>12\<close>. A year is four decimal digits of any script.
\<close>

definition in_range :: "char \<Rightarrow> char \<Rightarrow> nat \<Rightarrow> bool" where
  "in_range a b c = (code a \<le> c \<and> c \<le> code b)"

definition day_field :: "nat list \<Rightarrow> bool" where
  "day_field t =
     (case t of
        [a] \<Rightarrow> in_range CHR ''1'' CHR ''9'' a
      | [a, b] \<Rightarrow>
          (a = code CHR ''3'' \<and> in_range CHR ''0'' CHR ''1'' b) \<or>
          (in_range CHR ''1'' CHR ''2'' a \<and> u_digit b) \<or>
          (a = code CHR ''0'' \<and> in_range CHR ''1'' CHR ''9'' b) \<or>
          (a = code CHR '' '' \<and> in_range CHR ''1'' CHR ''9'' b)
      | _ \<Rightarrow> False)"

definition month_field :: "nat list \<Rightarrow> bool" where
  "month_field t =
     (case t of
        [a] \<Rightarrow> in_range CHR ''1'' CHR ''9'' a
      | [a, b] \<Rightarrow>
          (a = code CHR ''1'' \<and> in_range CHR ''0'' CHR ''2'' b) \<or>
          (a = code CHR ''0'' \<and> in_range CHR ''1'' CHR ''9'' b)
      | _ \<Rightarrow> False)"

definition year_field :: "nat list \<Rightarrow> bool" where
  "year_field t = (length t = 4 \<and> list_all u_digit t)"

subsection \<open>The pattern of strptime, read from left to right\<close>

text \<open>
  The token before the first dot of a string, with what follows the dot; a string that
  starts with four decimal digits.
\<close>

definition token_dot :: "(nat list \<Rightarrow> bool) \<Rightarrow> nat list \<Rightarrow> (nat list \<times> nat list) option" where
  "token_dot ok s =
     (let t = takeWhile (\<lambda>c. c \<noteq> code CHR ''.'') s in
      if length t < length s \<and> ok t then Some (t, drop (length t + 1) s) else None)"

definition year_first :: "nat list \<Rightarrow> bool" where
  "year_first s = (4 \<le> length s \<and> list_all u_digit (take 4 s))"

definition no_match :: "exn + datetime" where
  "no_match = Inl (ValueError (Text ''time data does not match format''))"

section \<open>Phone validation\<close>

lemma code_less_256: "code c < 256"
  by (simp add: code_def)

lemma code_eq_iff: "code a = code b \<longleftrightarrow> a = b"
  by (simp add: code_def)

lemma decimal_below_128: "c < 128 \<Longrightarrow> decimal c = (if 48 \<le> c \<and> c \<le> 57 then Some (c - 48) else None)"
  by (simp add: decimal_def)

lemma decimal_zeros_above: "z \<in> set decimal_zeros \<Longrightarrow> 1632 \<le> z"
  by (auto simp add: decimal_zeros_def)

lemma decimal_below_1632: "c < 1632 \<Longrightarrow> decimal c = (if 48 \<le> c \<and> c \<le> 57 then Some (c - 48) else None)"
proof (cases "c < 128")
  case True
  then show ?thesis by (simp add: decimal_def)
next
  case False
  assume c: "c < 1632"
  have "List.find (\<lambda>z. z \<le> c \<and> c < z + 10) decimal_zeros = None"
    using c decimal_zeros_above by (fastforce simp add: find_None_iff)
  with False c show ?thesis by (simp add: decimal_def)
qed

lemma u_digit_below_1632: "c < 1632 \<Longrightarrow> u_digit c \<longleftrightarrow> 48 \<le> c \<and> c \<le> 57"
  by (simp add: u_digit_def decimal_below_1632)

lemma u_digit_code: "u_digit (code c) \<longleftrightarrow> is_digit c"
proof -
  have "code c < 1632" using code_less_256 [of c] by simp
  then show ?thesis by (simp add: u_digit_below_1632 is_digit_def code_def)
qed

lemma list_all_u_digit_codes: "list_all u_digit (codes s) \<longleftrightarrow> list_all is_digit s"
  by (simp add: codes_def list_all_iff u_digit_code)

lemma rmatch_times_Digit:
  "rmatch (times n Digit) (i, s, g) =
     (if n \<le> length s \<and> list_all u_digit (take n s) then [(i + n, drop n s, g)] else [])"
proof (induction n arbitrary: i s)
  case 0
  then show ?case by simp
next
  case (Suc n)
  show ?case
  proof (cases s)
    case Nil
    then show ?thesis by simp
  next
    case (Cons x xs)
    then show ?thesis using Suc.IH [of "Suc i" xs] by simp
  qed
qed

lemma rmatch_phone_pattern:
  "rmatch phone_pattern (0, s, []) =
     (if 10 \<le> length s \<and> list_all u_digit (take 10 s) \<and>
         (drop 10 s = [] \<or> drop 10 s = [code newline])
      then [(10, drop 10 s, [])] else [])"
  by (auto simp add: phone_pattern_def rmatch_times_Digit)

text \<open>
  What \<open>validate_phone\<close> accepts: ten digits, and ten digits followed by one newline,
  because \<open>$\<close> also matches just before a newline that ends the string.
\<close>

lemma codes_eq_newline: "codes t = [code newline] \<longleftrightarrow> t = [newline]"
  by (cases t) (auto simp add: codes_def code_eq_iff)

lemma validate_phone_iff:
  "validate_phone s \<longleftrightarrow> ten_digits s \<or> (\<exists>t. s = t @ [newline] \<and> ten_digits t)"
proof -
  have a: "validate_phone s \<longleftrightarrow>
      10 \<le> length s \<and> list_all is_digit (take 10 s) \<and> (drop 10 s = [] \<or> drop 10 s = [newline])"
  proof -
    have "take 10 (codes s) = codes (take 10 s)" "drop 10 (codes s) = codes (drop 10 s)"
      by (simp_all add: codes_def take_map drop_map)
    then show ?thesis
      by (simp add: validate_phone_def re_match_def rmatch_phone_pattern list_all_u_digit_codes
          codes_eq_newline) (simp add: codes_def)
  qed
  show ?thesis
  proof
    assume "validate_phone s"
    with a have l: "10 \<le> length s" and d: "list_all is_digit (take 10 s)"
      and e: "drop 10 s = [] \<or> drop 10 s = [newline]" by simp_all
    from e show "ten_digits s \<or> (\<exists>t. s = t @ [newline] \<and> ten_digits t)"
    proof
      assume "drop 10 s = []"
      with l d have "ten_digits s" by (simp add: ten_digits_def)
      then show ?thesis ..
    next
      assume n: "drop 10 s = [newline]"
      have "s = take 10 s @ drop 10 s" by simp
      with n have "s = take 10 s @ [newline]" by simp
      moreover from l d have "ten_digits (take 10 s)" by (simp add: ten_digits_def)
      ultimately show ?thesis by blast
    qed
  next
    assume "ten_digits s \<or> (\<exists>t. s = t @ [newline] \<and> ten_digits t)"
    then show "validate_phone s"
      by (auto simp: a ten_digits_def)
  qed
qed

lemma Phone_ten_digits: "ten_digits s \<Longrightarrow> Phone s = Inr s"
  by (simp add: Phone_def validate_phone_iff)

lemma Phone_cases:
  "Phone s = (if validate_phone s then Inr s else Inl (ValueError PhoneTenDigits))"
  by (simp add: Phone_def)

text \<open>
  C2. Every string of exactly 10 decimal digits is accepted and stored (lemma
  \<open>Phone_ten_digits\<close>), but not every other string is refused: the 11 characters
  \<open>0123456789\<close> and a newline are not 10 digits, and \<open>Phone\<close> accepts and stores them.
\<close>

theorem Phone_accepts_trailing_newline:
  "Phone (''0123456789'' @ [newline]) = Inr (''0123456789'' @ [newline]) \<and>
   \<not> ten_digits (''0123456789'' @ [newline])"
  by (simp add: Phone_def validate_phone_iff ten_digits_def is_digit_def code_def)

section \<open>The command loop\<close>

lemma parse_input_no_token:
  "split (strip user_input) = [] \<Longrightarrow>
   parse_input user_input = Inl (IndexError (Text ''list index out of range''))"
  by (simp add: parse_input_def)

lemma parse_input_token:
  "split (strip user_input) = command # args \<Longrightarrow>
   parse_input user_input = Inr (lower command, args)"
  by (simp add: parse_input_def)

text \<open>
  Every line that holds a command other than \<open>close\<close> and \<open>exit\<close> ends the pass
  with a text printed and the loop going on: what a handler raises is returned as text.
\<close>

lemma loop_body_continues:
  assumes "parse_input user_input = Inr (command, args)"
    and "command \<noteq> ''close''" and "command \<noteq> ''exit''"
  shows "\<exists>m book'. loop_body P today user_input book files = Inr (Continue m book')"
proof -
  have s: "\<And>res :: message \<times> AddressBook. \<exists>m book'. (say res :: exn + 'a turn) = Inr (Continue m book')"
    by (simp add: say_def split: prod.split)
  show ?thesis using assms
    by (simp add: loop_body_def s)
qed

text \<open>
  C7. Not every line is handled without an exception: on the empty line, and on a line
  of spaces, \<open>parse_input\<close> raises IndexError at \<open>parts[0]\<close>, outside every handler;
  the pass of the loop raises it, and the loop ends with it.
\<close>

theorem empty_line_raises_IndexError:
  "loop_body P today '''' book files = Inl (IndexError (Text ''list index out of range'')) \<and>
   loop_body P today ''   '' book files = Inl (IndexError (Text ''list index out of range'')) \<and>
   main_loop P ((today, '''') # later) book files out =
     (Some (IndexError (Text ''list index out of range'')), out, files)"
  by (simp add: loop_body_def parse_input_def strip_def split_def is_space_def code_def)

section \<open>Upcoming birthdays\<close>

lemma upcoming_loop_anchors:
  "list_all (anchors today) rs \<Longrightarrow>
   upcoming_loop today upcoming rs acc = Inr (acc @ map name (filter (in_window today upcoming) rs))"
proof (induction rs arbitrary: acc)
  case Nil
  then show ?case by simp
next
  case (Cons r rs)
  then show ?case
    by (cases "birthday r") (simp_all add: anchors_def in_window_def anchored_def replace_year_def)
qed

text \<open>
  When every birthday's month and day exist in the current year, the method returns
  the names of the records in the window, in the book's order.
\<close>

lemma get_upcoming_birthdays_anchors:
  assumes "plus_days today days = Inr upcoming" and "list_all (anchors today) (dict_values book)"
  shows "get_upcoming_birthdays today days book =
           Inr (map name (filter (in_window today upcoming) (dict_values book)))"
  using assms by (simp add: get_upcoming_birthdays_def upcoming_loop_anchors)

text \<open>Otherwise the loop ends with the exception of \<open>replace\<close>.\<close>

lemma upcoming_loop_raises:
  "\<not> list_all (anchors today) rs \<Longrightarrow> \<exists>e. upcoming_loop today upcoming rs acc = Inl e"
proof (induction rs arbitrary: acc)
  case Nil
  then show ?case by simp
next
  case (Cons r rs)
  then show ?case
    by (cases "birthday r") (auto simp add: anchors_def replace_year_def split: option.splits)
qed

lemma funpow_7: "(f ^^ 7) x = f (f (f (f (f (f (f x))))))"
  by (simp add: numeral_eq_Suc)

text \<open>
  C5. With a record born on 29 February and a current year that is not a leap year, the
  method returns no list: \<open>replace(year=today.year)\<close> raises ValueError, and the
  \<open>birthdays\<close> command prints that exception's text.
\<close>

theorem get_upcoming_birthdays_29_February:
  "get_upcoming_birthdays noon_25_Feb_2023 7 [(''Bob'', bob)] =
     Inl (ValueError (Text ''day is out of range for month'')) \<and>
   birthdays noon_25_Feb_2023 [] [(''Bob'', bob)] =
     (Text ''day is out of range for month'', [(''Bob'', bob)])"
  by (simp add: birthdays_def birthdays_body_def input_error_def get_upcoming_birthdays_def
      plus_days_def noon_25_Feb_2023_def bob_def at_midnight_def dict_values_def replace_year_def
      check_date_fields_def days_in_month_def is_leap_def next_day_def funpow_7)

section \<open>Persistence\<close>






section \<open>Records\<close>

lemma filter_absent: "x \<notin> set xs \<Longrightarrow> filter (\<lambda>p. p \<noteq> x) xs = xs"
  by (induction xs) auto

text \<open>
  C4. \<open>edit_phone\<close> removes every phone equal to \<open>old\<close> and then validates \<open>new\<close>:
  a \<open>new\<close> that passes is appended, a \<open>new\<close> that fails raises ValueError with the
  removal done. When no phone equals \<open>old\<close> and \<open>new\<close> passes, the call succeeds
  and the phones are the former ones with \<open>new\<close> appended.
\<close>

theorem edit_phone_removes_then_appends:
  "edit_phone old new r =
     (if validate_phone new
      then (None, r\<lparr>phones := filter (\<lambda>p. p \<noteq> old) (phones r) @ [new]\<rparr>)
      else (Some (ValueError PhoneTenDigits),
            r\<lparr>phones := filter (\<lambda>p. p \<noteq> old) (phones r)\<rparr>)) \<and>
   (old \<notin> set (phones r) \<and> validate_phone new \<longrightarrow>
      edit_phone old new r = (None, r\<lparr>phones := phones r @ [new]\<rparr>))"
  by (simp add: edit_phone_def add_phone_def remove_phone_def Phone_def filter_absent)

theorem edit_phone_removes_then_appends_witness:
  "edit_phone ''0501234567'' ''0509999999'' bob = (None, bob\<lparr>phones := [''0509999999'']\<rparr>) \<and>
   edit_phone ''0000000000'' ''0509999999'' bob
     = (None, bob\<lparr>phones := [''0501234567'', ''0509999999'']\<rparr>) \<and>
   edit_phone ''0501234567'' ''abc'' bob = (Some (ValueError PhoneTenDigits), bob\<lparr>phones := []\<rparr>)"
  using edit_phone_removes_then_appends [of "''0501234567''" "''0509999999''" bob]
    edit_phone_removes_then_appends [of "''0000000000''" "''0509999999''" bob]
    edit_phone_removes_then_appends [of "''0501234567''" "''abc''" bob]
  by (simp add: validate_phone_iff ten_digits_def is_digit_def code_def bob_def)

section \<open>Dictionaries\<close>

lemma dict_set_absent: "dict_get d k = None \<Longrightarrow> dict_set k v d = d @ [(k, v)]"
  by (induction d) (auto simp: dict_get_def)

lemma dict_set_last: "dict_get d k = None \<Longrightarrow> dict_set k v (d @ [(k, w)]) = d @ [(k, v)]"
  by (induction d) (auto simp: dict_get_def)

lemma dict_get_dict_set: "dict_get (dict_set k v d) k' = (if k' = k then Some v else dict_get d k')"
  by (induction d) (auto simp: dict_get_def)

lemma map_fst_dict_set:
  "map fst (dict_set k v d) = (if k \<in> set (map fst d) then map fst d else map fst d @ [k])"
  by (induction d) auto

section \<open>The add handler\<close>

lemma not_validate_phone_abc: "\<not> validate_phone ''abc''"
  by (simp add: validate_phone_iff ten_digits_def)

lemma validate_phone_samples: "validate_phone ''0501234567''" "validate_phone ''0509999999''"
  by (simp_all add: validate_phone_iff ten_digits_def is_digit_def code_def)

text \<open>
  C8, as stated, for every two arguments: it fails for a phone that \<open>Phone\<close> refuses.
  On the empty book \<open>add Alice abc\<close> does not return the "added" message, and the
  record made for Alice holds no phone.
\<close>

theorem add_contact_refused_phone_not_appended:
  "fst (add_contact [''Alice'', ''abc''] []) \<noteq> ContactAdded \<and>
   find_record (snd (add_contact [''Alice'', ''abc''] [])) ''Alice''
     = Some \<lparr>name = ''Alice'', phones = [], birthday = None\<rparr>"
  by (simp add: Let_def add_contact_def add_contact_body_def new_Record_def Name_def add_phone_def
      Phone_def mutate_def add_record_def input_error_def find_record_def dict_get_def
      not_validate_phone_abc)

text \<open>
  C8, amended. With at least two arguments, a phone that passes validation and, when no
  record is under the name, a name that is not empty: where no record is under the name,
  the handler appends to the book a new record under it holding just that phone, and
  returns the "added" message; where a record is, it appends the phone to that record's
  phones, in place, and returns the "updated" message.
\<close>

theorem add_contact_validated:
  assumes "2 \<le> length args" and "validate_phone (args ! 1)"
    and "find_record book (args ! 0) = None \<longrightarrow> args ! 0 \<noteq> []"
  shows "add_contact args book =
     (case find_record book (args ! 0) of
        None \<Rightarrow> (ContactAdded,
                  book @ [(args ! 0, \<lparr>name = args ! 0, phones = [args ! 1], birthday = None\<rparr>)])
      | Some r \<Rightarrow> (ContactUpdated, dict_set (args ! 0) (r\<lparr>phones := phones r @ [args ! 1]\<rparr>) book))"
proof (cases "find_record book (args ! 0)")
  case None
  with assms(3) have n: "args ! 0 \<noteq> []" by simp
  from None have g: "dict_get book (args ! 0) = None" by (simp add: find_record_def)
  from assms(1) have l: "\<not> length args < 2" by simp
  show ?thesis using None n assms(2) l
    by (simp add: Let_def add_contact_def add_contact_body_def new_Record_def Name_def add_phone_def
        Phone_def mutate_def add_record_def input_error_def dict_set_absent [OF g]
        dict_set_last [OF g])
next
  case (Some r)
  from assms(1) have l: "\<not> length args < 2" by simp
  show ?thesis using Some assms(2) l
    by (simp add: Let_def add_contact_def add_contact_body_def add_phone_def Phone_def mutate_def
        input_error_def)
qed

theorem add_contact_validated_witness:
  "add_contact [''Alice'', ''0501234567''] []
     = (ContactAdded, [(''Alice'', \<lparr>name = ''Alice'', phones = [''0501234567''], birthday = None\<rparr>)]) \<and>
   add_contact [''Alice'', ''0509999999'']
       [(''Alice'', \<lparr>name = ''Alice'', phones = [''0501234567''], birthday = None\<rparr>)]
     = (ContactUpdated,
        [(''Alice'', \<lparr>name = ''Alice'', phones = [''0501234567'', ''0509999999''], birthday = None\<rparr>)])"
  using add_contact_validated [of "[''Alice'', ''0501234567'']" "[]"]
    add_contact_validated [of "[''Alice'', ''0509999999'']"
      "[(''Alice'', \<lparr>name = ''Alice'', phones = [''0501234567''], birthday = None\<rparr>)]"]
  by (simp add: validate_phone_samples find_record_def dict_get_def)

text \<open>
  C10, as stated, for every name that is not in the book: it fails for the empty name.
  \<open>Record('''')\<close> raises before anything is inserted, so the handler returns the text
  of the name's ValueError, and the book holds no record under the empty name.
\<close>

theorem add_contact_empty_name_inserts_nothing:
  "add_contact ['''', ''abc''] [] = (NameEmpty, [])"
  by (simp add: Let_def add_contact_def add_contact_body_def new_Record_def Name_def input_error_def
      find_record_def dict_get_def)

text \<open>
  C10, amended. With a name that is not empty and not in the book, and a phone that
  \<open>Phone\<close> refuses, the handler returns the text of the phone's ValueError, and the
  book afterwards ends with a record under that name that holds no phone and no
  birthday: the insertion is not undone.
\<close>

theorem add_contact_refused_phone_keeps_record:
  assumes "2 \<le> length args" and "find_record book (args ! 0) = None" and "args ! 0 \<noteq> []"
    and "\<not> validate_phone (args ! 1)"
  shows "add_contact args book =
     (PhoneTenDigits, book @ [(args ! 0, \<lparr>name = args ! 0, phones = [], birthday = None\<rparr>)])"
proof -
  from assms(2) have g: "dict_get book (args ! 0) = None" by (simp add: find_record_def)
  from assms(1) have l: "\<not> length args < 2" by simp
  show ?thesis using assms(2-4) l
    by (simp add: Let_def add_contact_def add_contact_body_def new_Record_def Name_def add_phone_def
        Phone_def mutate_def add_record_def input_error_def dict_set_absent [OF g]
        dict_set_last [OF g])
qed

theorem add_contact_refused_phone_keeps_record_witness:
  "add_contact [''Carol'', ''abc''] [(''Bob'', bob)]
     = (PhoneTenDigits,
        [(''Bob'', bob), (''Carol'', \<lparr>name = ''Carol'', phones = [], birthday = None\<rparr>)])"
  using add_contact_refused_phone_keeps_record [of "[''Carol'', ''abc'']" "[(''Bob'', bob)]"]
  by (simp add: not_validate_phone_abc find_record_def dict_get_def)

section \<open>The invariant\<close>

text \<open>
  Each operation keeps the invariant for every \<open>Q\<close> that holds of the phone strings
  \<open>validate_phone\<close> lets through.
\<close>

lemma list_all_dict_set: "list_all P d \<Longrightarrow> P (k, v) \<Longrightarrow> list_all P (dict_set k v d)"
  by (induction d) auto

lemma list_all_dict_del: "list_all P d \<Longrightarrow> list_all P (dict_del k d)"
  by (simp add: dict_del_def list_all_iff)

lemma date_at_midnight_valid: "date_at_midnight y m d = Inr t \<Longrightarrow> valid_datetime t"
  by (auto simp add: date_at_midnight_def check_date_fields_def valid_datetime_def valid_date_def
      split: option.splits if_splits)

lemma strptime_valid: "strptime s = Inr t \<Longrightarrow> valid_datetime t"
  by (auto simp add: strptime_def date_at_midnight_valid split: option.splits sum.splits prod.splits if_splits)

lemma Birthday_valid: "Birthday s = Inr t \<Longrightarrow> valid_datetime t"
  by (auto simp add: Birthday_def strptime_valid split: sum.splits if_splits)

lemma new_Record_inv: "new_Record n = Inr r \<Longrightarrow> name r = n \<and> record_inv_with Q r"
  by (auto simp add: new_Record_def Name_def record_inv_with_def split: if_splits)

lemma add_phone_name: "name (snd (add_phone p r)) = name r"
  by (simp add: add_phone_def Phone_def)

lemma add_phone_inv:
  "record_inv_with Q r \<Longrightarrow> (validate_phone p \<longrightarrow> Q p) \<Longrightarrow> record_inv_with Q (snd (add_phone p r))"
  by (simp add: add_phone_def Phone_def record_inv_with_def)

lemma remove_phone_name: "name (remove_phone p r) = name r"
  by (simp add: remove_phone_def)

lemma remove_phone_inv: "record_inv_with Q r \<Longrightarrow> record_inv_with Q (remove_phone p r)"
  by (simp add: remove_phone_def record_inv_with_def list_all_iff)

lemma edit_phone_name: "name (snd (edit_phone old new r)) = name r"
  by (simp add: edit_phone_def add_phone_name remove_phone_name)

lemma edit_phone_inv:
  "record_inv_with Q r \<Longrightarrow> (validate_phone new \<longrightarrow> Q new) \<Longrightarrow>
   record_inv_with Q (snd (edit_phone old new r))"
  by (simp add: edit_phone_def add_phone_inv remove_phone_inv)

lemma Record_add_birthday_name: "name (snd (Record_add_birthday b r)) = name r"
  by (simp add: Record_add_birthday_def split: sum.splits)

lemma Record_add_birthday_inv:
  "record_inv_with Q r \<Longrightarrow> record_inv_with Q (snd (Record_add_birthday b r))"
  by (auto simp add: Record_add_birthday_def record_inv_with_def Birthday_valid split: sum.splits)

lemma add_record_inv:
  "record_inv_with Q r \<Longrightarrow> book_inv_with Q book \<Longrightarrow> book_inv_with Q (add_record r book)"
  by (simp add: add_record_def book_inv_with_def list_all_dict_set)

lemma delete_inv: "book_inv_with Q book \<Longrightarrow> book_inv_with Q (delete n book)"
  by (simp add: delete_def book_inv_with_def list_all_dict_del)

lemma find_record_inv:
  assumes "book_inv_with Q book" and "find_record book n = Some r"
  shows "name r = n \<and> record_inv_with Q r"
proof -
  from assms(2) have "(n, r) \<in> set book"
    by (simp add: find_record_def dict_get_def map_of_SomeD)
  with assms(1) show ?thesis
    by (auto simp add: book_inv_with_def list_all_iff)
qed

lemma mutate_inv:
  assumes "book_inv_with Q book" and "name (snd call) = key" and "record_inv_with Q (snd call)"
  shows "book_inv_with Q (snd (mutate key call msg book))"
  using assms
  by (cases call) (auto simp add: mutate_def book_inv_with_def list_all_dict_set split: option.splits)

lemma input_error_snd: "snd (input_error res) = snd res"
  by (cases res) (auto simp add: input_error_def split: sum.splits)

lemma accepted_satisfy_nth: "accepted_satisfy Q args \<Longrightarrow> i < length args \<Longrightarrow> validate_phone (args ! i) \<longrightarrow> Q (args ! i)"
  by (simp add: accepted_satisfy_def list_all_length)

lemma add_contact_inv:
  assumes "book_inv_with Q book" and "accepted_satisfy Q args"
  shows "book_inv_with Q (snd (add_contact args book))"
proof (cases "length args < 2")
  case True
  with assms(1) show ?thesis
    by (simp add: add_contact_def add_contact_body_def input_error_snd)
next
  case False
  then have q: "validate_phone (args ! 1) \<longrightarrow> Q (args ! 1)"
    using accepted_satisfy_nth [OF assms(2), of 1] by simp
  show ?thesis
  proof (cases "find_record book (args ! 0)")
    case None
    show ?thesis
    proof (cases "new_Record (args ! 0)")
      case (Inl e)
      with None False assms(1) show ?thesis
        by (simp add: add_contact_def add_contact_body_def input_error_snd Let_def)
    next
      case (Inr r)
      from new_Record_inv [OF Inr] have r: "name r = args ! 0" "record_inv_with Q r" by simp_all
      have "book_inv_with Q (snd (mutate (name r) (add_phone (args ! 1) r) ContactAdded (add_record r book)))"
        using q r assms(1)
        by (intro mutate_inv add_record_inv add_phone_inv) (simp_all add: add_phone_name)
      with None False Inr show ?thesis
        by (simp add: add_contact_def add_contact_body_def input_error_snd Let_def)
    qed
  next
    case (Some r)
    from find_record_inv [OF assms(1) Some] have r: "name r = args ! 0" "record_inv_with Q r" by simp_all
    have "book_inv_with Q (snd (mutate (args ! 0) (add_phone (args ! 1) r) ContactUpdated book))"
      using q r assms(1)
      by (intro mutate_inv add_phone_inv) (simp_all add: add_phone_name)
    with Some False show ?thesis
      by (simp add: add_contact_def add_contact_body_def input_error_snd Let_def)
  qed
qed

lemma change_contact_inv:
  assumes "book_inv_with Q book" and "accepted_satisfy Q args"
  shows "book_inv_with Q (snd (change_contact args book))"
proof (cases "length args < 3")
  case True
  with assms(1) show ?thesis
    by (simp add: change_contact_def change_contact_body_def input_error_snd)
next
  case False
  then have q: "validate_phone (args ! 2) \<longrightarrow> Q (args ! 2)"
    using accepted_satisfy_nth [OF assms(2), of 2] by simp
  show ?thesis
  proof (cases "find_record book (args ! 0)")
    case None
    with False assms(1) show ?thesis
      by (simp add: change_contact_def change_contact_body_def input_error_snd Let_def)
  next
    case (Some r)
    from find_record_inv [OF assms(1) Some] have r: "name r = args ! 0" "record_inv_with Q r" by simp_all
    have "book_inv_with Q (snd (mutate (args ! 0) (edit_phone (args ! 1) (args ! 2) r) (PhoneChanged (args ! 0)) book))"
      using q r assms(1)
      by (intro mutate_inv edit_phone_inv) (simp_all add: edit_phone_name)
    with Some False show ?thesis
      by (simp add: change_contact_def change_contact_body_def input_error_snd Let_def)
  qed
qed

lemma add_birthday_inv:
  assumes "book_inv_with Q book"
  shows "book_inv_with Q (snd (add_birthday args book))"
proof (cases "length args < 2")
  case True
  with assms(1) show ?thesis
    by (simp add: add_birthday_def add_birthday_body_def input_error_snd)
next
  case False
  show ?thesis
  proof (cases "find_record book (args ! 0)")
    case None
    with False assms(1) show ?thesis
      by (simp add: add_birthday_def add_birthday_body_def input_error_snd Let_def)
  next
    case (Some r)
    from find_record_inv [OF assms(1) Some] have r: "name r = args ! 0" "record_inv_with Q r" by simp_all
    have "book_inv_with Q (snd (mutate (args ! 0) (Record_add_birthday (args ! 1) r) (BirthdayAdded (args ! 0)) book))"
      using r assms(1)
      by (intro mutate_inv Record_add_birthday_inv) (simp_all add: Record_add_birthday_name)
    with Some False show ?thesis
      by (simp add: add_birthday_def add_birthday_body_def input_error_snd Let_def)
  qed
qed

lemma readers_keep_book:
  "snd (show_birthday args book) = book"
  "snd (birthdays today args book) = book"
  "snd (show_phone args book) = book"
  "snd (show_all_contacts book) = book"
  by (simp_all add: show_birthday_def show_birthday_body_def birthdays_def birthdays_body_def
      show_phone_def show_phone_body_def show_all_contacts_def show_all_contacts_body_def
      input_error_snd Let_def split: option.splits sum.splits)


lemma split_from_no_space:
  "list_all (\<lambda>c. \<not> is_space c) cur \<Longrightarrow>
   list_all (list_all (\<lambda>c. \<not> is_space c)) (split_from cur s)"
  by (induction s arbitrary: cur) auto

lemma is_space_newline: "is_space newline"
  by (simp add: is_space_def newline_def code_def)

lemma validate_phone_no_newline: "validate_phone s \<Longrightarrow> newline \<notin> set s \<Longrightarrow> ten_digits s"
  by (auto simp add: validate_phone_iff)

lemma parse_input_args:
  assumes "parse_input user_input = Inr (command, args)"
  shows "accepted_satisfy ten_digits args"
proof -
  have "list_all (list_all (\<lambda>c. \<not> is_space c)) (split (strip user_input))"
    by (simp add: split_def split_from_no_space)
  moreover from assms have "set args \<subseteq> set (split (strip user_input))"
    by (auto simp add: parse_input_def Let_def split: list.splits)
  ultimately have "\<forall>a\<in>set args. \<forall>c\<in>set a. \<not> is_space c"
    by (auto simp add: list_all_iff)
  then have "\<forall>a\<in>set args. newline \<notin> set a"
    using is_space_newline by blast
  then show ?thesis
    by (auto simp add: accepted_satisfy_def list_all_iff validate_phone_no_newline)
qed

lemma accepted_satisfy_validate_phone: "accepted_satisfy validate_phone args"
  by (simp add: accepted_satisfy_def list_all_iff)

lemma say_Continue: "say res = Inr (Continue m book') \<Longrightarrow> book' = snd res"
  by (cases res) (simp add: say_def)

lemma loop_body_inv_with:
  assumes "book_inv_with Q book" and "parse_input user_input = Inr (command, args)"
    and "accepted_satisfy Q args"
    and "loop_body P today user_input book files = Inr (Continue m book')"
  shows "book_inv_with Q book'"
  using assms
  by (auto simp add: loop_body_def add_contact_inv change_contact_inv add_birthday_inv
      readers_keep_book split: if_splits sum.splits dest!: say_Continue)

lemma loop_body_book_inv:
  assumes "book_inv book" and "loop_body P today user_input book files = Inr (Continue m book')"
  shows "book_inv book'"
proof -
  from assms(2) obtain command args where p: "parse_input user_input = Inr (command, args)"
    by (auto simp add: loop_body_def split: sum.splits)
  from loop_body_inv_with [OF _ p parse_input_args [OF p] assms(2)] assms(1)
  show ?thesis by (simp add: book_inv_def)
qed

lemma sample_validates: "validate_phone (''0123456789'' @ [newline])"
  by (simp add: validate_phone_iff ten_digits_def is_digit_def code_def)

lemma sample_not_ten_digits: "\<not> ten_digits (''0123456789'' @ [newline])"
  by (simp add: ten_digits_def)

text \<open>
  C9. The operations keep every key equal to its record's name and every birthday a
  calendar date, and every phone one that \<open>validate_phone\<close> accepted (lemmas
  \<open>add_contact_inv\<close> and its like, with \<open>validate_phone\<close> for \<open>Q\<close>). They do not
  keep the 10-digit rule: \<open>add_phone\<close>, and the add handler through it, store ten
  digits followed by a newline. (A pass of the command loop keeps the rule, lemma
  \<open>loop_body_book_inv\<close>, since no argument cut from a line holds a newline.)
\<close>

theorem add_phone_breaks_ten_digit_rule:
  "book_inv [] \<and> \<not> book_inv (snd (add_contact [''Alice'', ''0123456789'' @ [newline]] [])) \<and>
   record_inv \<lparr>name = ''Alice'', phones = [], birthday = None\<rparr> \<and>
   \<not> record_inv (snd (add_phone (''0123456789'' @ [newline]) \<lparr>name = ''Alice'', phones = [], birthday = None\<rparr>))"
  using sample_validates sample_not_ten_digits
  by (simp add: book_inv_def book_inv_with_def record_inv_def record_inv_with_def add_contact_def add_contact_body_def
      new_Record_def Name_def add_phone_def Phone_def mutate_def add_record_def input_error_def find_record_def dict_get_def
      Let_def)

section \<open>Birthday validation\<close>

lemma code_simps:
  "code CHR ''0'' = 48" "code CHR ''1'' = 49" "code CHR ''2'' = 50" "code CHR ''3'' = 51"
  "code CHR ''9'' = 57" "code CHR ''.'' = 46" "code CHR '' '' = 32"
  by (simp_all add: code_def)

lemma u_digit_consts: "\<not> u_digit 46" "\<not> u_digit 32" "u_digit 48" "u_digit 49" "u_digit 51"
  by (simp_all add: u_digit_below_1632)

lemma in_range_u_digit:
  "in_range CHR ''1'' CHR ''9'' c \<Longrightarrow> u_digit c"
  "in_range CHR ''0'' CHR ''1'' c \<Longrightarrow> u_digit c"
  "in_range CHR ''1'' CHR ''2'' c \<Longrightarrow> u_digit c"
  "in_range CHR ''0'' CHR ''2'' c \<Longrightarrow> u_digit c"
  by (auto simp add: in_range_def code_simps u_digit_below_1632)

lemma rmatch_day_dot:
  "rmatch (Cat (Group ''d'' day_re) (Cat (Lit (code CHR ''.'')) R)) (i, s, g) =
     (case token_dot day_field s of
        None \<Rightarrow> []
      | Some (ds, rest) \<Rightarrow> rmatch R (i + length ds + 1, rest, g @ [(''d'', ds)]))"
proof -
  consider "s = []" | a where "s = [a]" | a b where "s = [a, b]" | a b c t where "s = a # b # c # t"
    by (cases s; cases "tl s"; cases "tl (tl s)") auto
  then show ?thesis
  proof cases
    case 1
    then show ?thesis by (simp add: day_re_def token_dot_def)
  next
    case 2
    then show ?thesis
      by (auto simp add: day_re_def token_dot_def day_field_def in_range_def code_simps
          u_digit_consts)
  next
    case 3
    then show ?thesis
      by (auto simp add: day_re_def token_dot_def day_field_def in_range_def code_simps
          u_digit_consts)
  next
    case 4
    then show ?thesis
      by (auto simp add: day_re_def token_dot_def day_field_def in_range_def code_simps
          u_digit_consts)
  qed
qed

lemma rmatch_month_dot:
  "rmatch (Cat (Group ''m'' month_re) (Cat (Lit (code CHR ''.'')) R)) (i, s, g) =
     (case token_dot month_field s of
        None \<Rightarrow> []
      | Some (ms, rest) \<Rightarrow> rmatch R (i + length ms + 1, rest, g @ [(''m'', ms)]))"
proof -
  consider "s = []" | a where "s = [a]" | a b where "s = [a, b]" | a b c t where "s = a # b # c # t"
    by (cases s; cases "tl s"; cases "tl (tl s)") auto
  then show ?thesis
  proof cases
    case 1
    then show ?thesis by (simp add: month_re_def token_dot_def)
  next
    case 2
    then show ?thesis
      by (auto simp add: month_re_def token_dot_def month_field_def in_range_def code_simps)
  next
    case 3
    then show ?thesis
      by (auto simp add: month_re_def token_dot_def month_field_def in_range_def code_simps)
  next
    case 4
    then show ?thesis
      by (auto simp add: month_re_def token_dot_def month_field_def in_range_def code_simps)
  qed
qed

lemma rmatch_year:
  "rmatch (Group ''Y'' year_re) (i, s, g) =
     (if year_first s then [(i + 4, drop 4 s, g @ [(''Y'', take 4 s)])] else [])"
proof -
  consider "s = []" | a where "s = [a]" | a b where "s = [a, b]" | a b c where "s = [a, b, c]"
    | a b c d t where "s = a # b # c # d # t"
    by (cases s; cases "tl s"; cases "tl (tl s)"; cases "tl (tl (tl s))") auto
  then show ?thesis
    by cases (auto simp add: year_re_def year_first_def)
qed

lemma token_dot_Some:
  assumes "token_dot ok s = Some (t, r)"
  shows "s = t @ code CHR ''.'' # r" and "ok t" and "code CHR ''.'' \<notin> set t"
proof -
  let ?P = "\<lambda>c. c \<noteq> code CHR ''.''"
  let ?t = "takeWhile ?P s"
  from assms have l: "length ?t < length s" and o: "ok ?t" and t: "t = ?t"
    and r: "r = drop (length ?t + 1) s"
    by (auto simp add: token_dot_def Let_def split: if_splits)
  from l have d: "dropWhile ?P s \<noteq> []"
    by (metis add.right_neutral length_append list.size(3) nat_neq_iff takeWhile_dropWhile_id)
  then have h: "hd (dropWhile ?P s) = code CHR ''.''"
    using hd_dropWhile [of ?P s] by simp
  have "s = ?t @ dropWhile ?P s" by simp
  moreover have "dropWhile ?P s = code CHR ''.'' # drop (length ?t + 1) s"
    using d h by (metis Suc_eq_plus1 drop_Suc dropWhile_eq_drop hd_Cons_tl tl_drop)
  ultimately show "s = t @ code CHR ''.'' # r" using t r by simp
  show "ok t" using o t by simp
  show "code CHR ''.'' \<notin> set t" using t by (auto dest: set_takeWhileD)
qed

lemma token_dot_append:
  assumes "ok t" and "code CHR ''.'' \<notin> set t"
  shows "token_dot ok (t @ code CHR ''.'' # r) = Some (t, r)"
proof -
  from assms(2) have "takeWhile (\<lambda>c. c \<noteq> code CHR ''.'') (t @ code CHR ''.'' # r) = t"
    by (induction t) auto
  with assms(1) show ?thesis by (simp add: token_dot_def)
qed

lemma space_not_decimal: "u_space c \<Longrightarrow> 127 \<le> c \<Longrightarrow> decimal c = None"
proof -
  assume s: "u_space c" and c: "127 \<le> c"
  show ?thesis
  proof (cases "c < 1632")
    case True
    with s c show ?thesis by (auto simp add: decimal_below_1632 u_space_def)
  next
    case False
    with s have r: "c = 5760 \<or> (8192 \<le> c \<and> c \<le> 8202) \<or> c = 8232 \<or> c = 8233 \<or> c = 8239
        \<or> c = 8287 \<or> c = 12288"
      by (auto simp add: u_space_def)
    have "\<forall>z\<in>set decimal_zeros. \<not> (z \<le> c \<and> c < z + 10)"
      using r unfolding decimal_zeros_def by auto
    then have "List.find (\<lambda>z. z \<le> c \<and> c < z + 10) decimal_zeros = None"
      by (simp add: find_None_iff)
    with False show ?thesis by (simp add: decimal_def)
  qed
qed

lemma digit_not_int_space: "u_digit c \<Longrightarrow> \<not> int_space c"
proof
  assume d: "u_digit c" and s: "int_space c"
  show False
  proof (cases "c < 127")
    case True
    with d s show False by (auto simp add: int_space_def u_digit_below_1632)
  next
    case False
    with s have "u_space c" "127 \<le> c" by (auto simp add: int_space_def)
    with d show False by (simp add: u_digit_def space_not_decimal)
  qed
qed

lemma int_strip_digits: "list_all u_digit t \<Longrightarrow> int_strip t = t"
proof -
  assume a: "list_all u_digit t"
  have d: "\<And>u. list_all u_digit u \<Longrightarrow> dropWhile int_space u = u"
    by (case_tac u) (auto simp add: digit_not_int_space)
  from a have "list_all u_digit (rev t)" by (simp add: list_all_iff)
  with a d show ?thesis by (simp add: int_strip_def)
qed

lemma py_int_digits: "list_all u_digit t \<Longrightarrow> t \<noteq> [] \<Longrightarrow> py_int t = Inr (number t)"
  by (simp add: py_int_def int_strip_digits number_def Let_def list_all_iff)

lemma py_int_space_digit:
  assumes "u_digit b"
  shows "py_int [32, b] = Inr (number [32, b])"
proof -
  have s: "int_space 32" by (simp add: int_space_def)
  from assms have b: "\<not> int_space b" by (rule digit_not_int_space)
  from s b have "int_strip [32, b] = [b]" by (simp add: int_strip_def)
  with assms show ?thesis
    by (simp add: py_int_def number_def Let_def u_digit_consts)
qed

lemma py_int_day_field: "day_field t \<Longrightarrow> py_int t = Inr (number t)"
  by (auto simp add: day_field_def py_int_digits py_int_space_digit in_range_u_digit u_digit_consts
      code_simps split: list.splits)

lemma py_int_month_field: "month_field t \<Longrightarrow> py_int t = Inr (number t)"
  by (auto simp add: month_field_def py_int_digits in_range_u_digit u_digit_consts code_simps
      split: list.splits)

lemma rmatch_strptime_regex:
  "rmatch strptime_regex (0, s, []) =
     (case token_dot day_field s of
        None \<Rightarrow> []
      | Some (ds, r1) \<Rightarrow>
          (case token_dot month_field r1 of
             None \<Rightarrow> []
           | Some (ms, ys) \<Rightarrow>
               if year_first ys
               then [(length ds + length ms + 6, drop 4 ys,
                      [(''d'', ds), (''m'', ms), (''Y'', take 4 ys)])]
               else []))"
  unfolding strptime_regex_def rmatch_day_dot rmatch_month_dot rmatch_year
  by (simp split: option.splits)

lemma strptime_tokens:
  "strptime s =
     (case token_dot day_field s of
        None \<Rightarrow> no_match
      | Some (ds, r1) \<Rightarrow>
          (case token_dot month_field r1 of
             None \<Rightarrow> no_match
           | Some (ms, ys) \<Rightarrow>
               if year_first ys
               then (if length ys \<noteq> 4 then Inl (ValueError (Text ''unconverted data remains''))
                     else date_at_midnight (number ys) (number ms) (number ds))
               else no_match))"
proof (cases "token_dot day_field s")
  case None
  then show ?thesis
    by (simp add: strptime_def re_match_def rmatch_strptime_regex no_match_def)
next
  case d: (Some p)
  obtain ds r1 where p: "p = (ds, r1)" by (cases p)
  note D = token_dot_Some [OF d [unfolded p]]
  show ?thesis
  proof (cases "token_dot month_field r1")
    case None
    with d p show ?thesis
      by (simp add: strptime_def re_match_def rmatch_strptime_regex no_match_def)
  next
    case m: (Some q)
    obtain ms ys where q: "q = (ms, ys)" by (cases q)
    note M = token_dot_Some [OF m [unfolded q]]
    have len: "length s = length ds + 1 + (length ms + 1 + length ys)"
      using D(1) M(1) by simp
    show ?thesis
    proof (cases "year_first ys")
      case False
      with d p m q show ?thesis
        by (simp add: strptime_def re_match_def rmatch_strptime_regex no_match_def)
    next
      case True
      show ?thesis
      proof (cases "length ys = 4")
        case False
        with True d p m q len show ?thesis
          by (simp add: strptime_def re_match_def rmatch_strptime_regex)
      next
        case l4: True
        with True have y: "list_all u_digit ys" "ys \<noteq> []" by (auto simp add: year_first_def)
        from l4 True d p m q len show ?thesis
          by (simp add: strptime_def re_match_def rmatch_strptime_regex py_int_digits [OF y]
              py_int_day_field [OF D(2)] py_int_month_field [OF M(2)])
      qed
    qed
  qed
qed

lemma strptime_ValueError: "strptime s = Inl e \<Longrightarrow> \<exists>m. e = ValueError m"
  by (auto simp add: strptime_tokens no_match_def date_at_midnight_def check_date_fields_def
      split: option.splits prod.splits if_splits)

lemma Birthday_strptime:
  "Birthday s = (case strptime s of Inr t \<Rightarrow> Inr t | Inl e \<Rightarrow> Inl (ValueError DateFormat))"
proof (cases "strptime s")
  case (Inl e)
  with strptime_ValueError [OF Inl] show ?thesis
    by (auto simp add: Birthday_def validate_date_def)
next
  case (Inr t)
  then show ?thesis by (simp add: Birthday_def validate_date_def)
qed

lemma date_at_midnight_iff:
  "date_at_midnight y m d = Inr t \<longleftrightarrow> valid_date y m d \<and> t = at_midnight y m d"
  by (auto simp add: date_at_midnight_def check_date_fields_def valid_date_def at_midnight_def
      split: option.splits if_splits)

lemma field_no_dot:
  "day_field t \<Longrightarrow> code CHR ''.'' \<notin> set t" "month_field t \<Longrightarrow> code CHR ''.'' \<notin> set t"
  by (auto simp add: day_field_def month_field_def in_range_def code_simps u_digit_consts
      split: list.splits)

lemma year_field_first: "year_field t \<Longrightarrow> year_first t \<and> length t = 4"
  by (simp add: year_field_def year_first_def)

lemma codes_dot: "codes ''.'' = [code CHR ''.'']"
  by (simp add: codes_def)

lemma strptime_fields:
  assumes "day_field ds" and "month_field ms" and "year_field ys"
    and "valid_date (number ys) (number ms) (number ds)"
  shows "strptime (ds @ codes ''.'' @ ms @ codes ''.'' @ ys)
           = Inr (at_midnight (number ys) (number ms) (number ds))"
proof -
  have 1: "token_dot day_field (ds @ code CHR ''.'' # (ms @ code CHR ''.'' # ys))
      = Some (ds, ms @ code CHR ''.'' # ys)"
    using assms(1) by (intro token_dot_append field_no_dot)
  have 2: "token_dot month_field (ms @ code CHR ''.'' # ys) = Some (ms, ys)"
    using assms(2) by (intro token_dot_append field_no_dot)
  from assms(4) have 3: "date_at_midnight (number ys) (number ms) (number ds)
      = Inr (at_midnight (number ys) (number ms) (number ds))"
    by (simp add: date_at_midnight_iff)
  from 1 2 3 year_field_first [OF assms(3)] show ?thesis
    by (simp add: strptime_tokens codes_dot)
qed










lemma codes_simps: "codes [] = []" "codes (c # cs) = code c # codes cs"
  by (simp_all add: codes_def)

lemma decimal_1632: "decimal 1632 = Some 0" "decimal 1633 = Some 1" "decimal 1634 = Some 2"
  by (simp_all add: decimal_def decimal_zeros_def)



text \<open>
  Decimal digits of another script: a year in Arabic-Indic digits is read, a day in
  them is not.
\<close>

lemma Birthday_year_in_another_script:
  "Birthday (codes ''01.01.'' @ [1634, 1632, 1632, 1632]) = Inr (at_midnight 2000 1 1)"
proof -
  have u: "u_digit 1632" "u_digit 1634"
    by (simp_all add: u_digit_def decimal_1632)
  have "strptime (codes ''01'' @ codes ''.'' @ codes ''01'' @ codes ''.'' @ [1634, 1632, 1632, 1632]) =
      Inr (at_midnight (number [1634, 1632, 1632, 1632]) (number (codes ''01''))
             (number (codes ''01'')))"
    by (rule strptime_fields)
      (simp_all add: day_field_def month_field_def year_field_def number_def in_range_def
        codes_def code_def u_digit_below_1632 decimal_val_def decimal_below_128 valid_date_def
        days_in_month_def u decimal_1632)
  then show ?thesis
    by (simp add: Birthday_strptime number_def codes_def code_def u_digit_below_1632
        decimal_val_def decimal_below_128 u decimal_1632)
qed

lemma Birthday_day_in_another_script:
  "Birthday ([1632, 1633] @ codes ''.01.2000'') = Inl (ValueError DateFormat)"
  by (simp add: Birthday_strptime strptime_tokens token_dot_def day_field_def in_range_def
      codes_def code_def no_match_def)




section \<open>The sample book\<close>

text \<open>
  The book of C5 is the one the commands \<open>add Bob 0501234567\<close> and
  \<open>add-birthday Bob 29.02.2000\<close> make of the empty book.
\<close>

lemma Birthday_29_02_2000: "Birthday (codes ''29.02.2000'') = Inr (at_midnight 2000 2 29)"
proof -
  have "strptime (codes ''29'' @ codes ''.'' @ codes ''02'' @ codes ''.'' @ codes ''2000'') =
      Inr (at_midnight (number (codes ''2000'')) (number (codes ''02'')) (number (codes ''29'')))"
    by (rule strptime_fields)
      (simp_all add: day_field_def month_field_def year_field_def number_def in_range_def
        codes_def code_def u_digit_below_1632 decimal_val_def decimal_below_128 valid_date_def
        days_in_month_def is_leap_def)
  then show ?thesis
    by (simp add: Birthday_strptime number_def codes_def code_def u_digit_below_1632
        decimal_val_def decimal_below_128)
qed

lemma bob_from_the_handlers:
  "snd (add_birthday [''Bob'', ''29.02.2000''] (snd (add_contact [''Bob'', ''0501234567''] [])))
     = [(''Bob'', bob)]"
  by (simp add: Let_def add_contact_def add_contact_body_def new_Record_def Name_def add_phone_def
      Phone_def mutate_def add_record_def input_error_def find_record_def dict_get_def
      validate_phone_samples add_birthday_def add_birthday_body_def Record_add_birthday_def
      Birthday_29_02_2000 bob_def)

end
